theory Spec2Isabelle
  imports Complex_Main
begin

section \<open>Python strings\<close>

text \<open>
  A Python \<open>str\<close> is a sequence of Unicode code points, and the block names of the
  schedule templates are Korean text with pictographs, so a string that can hold such text
  is modelled as the list of its code points (\<open>ord c\<close> of each character). Strings that
  the program only ever compares with ASCII literals (\<open>day_type\<close>, \<open>mode\<close>, the
  category of a block) are HOL strings; \<open>u\<close> turns an ASCII literal into code points.
\<close>

type_synonym ustr = "nat list"

definition u :: "string \<Rightarrow> ustr" where
  "u s = map of_char s"

text \<open>
  \<open>str.isspace\<close> for one character: the code points Python treats as whitespace, which
  are the ones \<open>str.strip()\<close> removes from both ends.
\<close>

definition py_isspace :: "nat \<Rightarrow> bool" where
  "py_isspace c \<longleftrightarrow>
     (0x09 \<le> c \<and> c \<le> 0x0D) \<or> (0x1C \<le> c \<and> c \<le> 0x20) \<or> c = 0x85 \<or> c = 0xA0 \<or>
     c = 0x1680 \<or> (0x2000 \<le> c \<and> c \<le> 0x200A) \<or> c = 0x2028 \<or> c = 0x2029 \<or>
     c = 0x202F \<or> c = 0x205F \<or> c = 0x3000"

definition py_strip :: "ustr \<Rightarrow> ustr" where
  "py_strip s = rev (dropWhile py_isspace (rev (dropWhile py_isspace s)))"

definition py_startswith :: "ustr \<Rightarrow> ustr \<Rightarrow> bool" where
  "py_startswith s p \<longleftrightarrow> take (length p) s = p"

text \<open>\<open>sub in s\<close>: the first position at which \<open>sub\<close> starts, searched left to right.\<close>

fun py_in :: "ustr \<Rightarrow> ustr \<Rightarrow> bool" where
  "py_in sub [] \<longleftrightarrow> sub = []"
| "py_in sub (c # cs) \<longleftrightarrow> py_startswith (c # cs) sub \<or> py_in sub cs"

section \<open>Calendar\<close>

text \<open>
  A \<open>datetime.date\<close> is modelled by its proleptic Gregorian ordinal (\<open>date.toordinal()\<close>),
  so that \<open>(target_date - start_date).days\<close> is the difference of two integers. Python's
  \<open>//\<close> on integers rounds towards minus infinity, as \<open>div\<close> on \<open>int\<close> does.
\<close>

definition get_week_number :: "int \<Rightarrow> int \<Rightarrow> int" where
  "get_week_number start_date target_date =
     (let delta = target_date - start_date in max 1 (delta div 7 + 1))"

definition get_phase_by_week :: "int \<Rightarrow> int" where
  "get_phase_by_week week_num =
     (if week_num \<le> 1 then 1 else if week_num \<le> 3 then 2 else if week_num \<le> 6 then 3 else 4)"

section \<open>Schedule templates\<close>

text \<open>
  A schedule item is the 5-tuple \<open>(time, name, category, minutes, desc)\<close> of the source.
  \<open>schedule.append\<close> in sequence becomes list concatenation in the same order; an
  \<open>if\<close> without \<open>else\<close> contributes the empty list. The comment on each item gives its
  source line and an English gloss of the Korean name.
\<close>

type_synonym sched_item = "ustr \<times> ustr \<times> string \<times> int \<times> ustr"

definition get_detailed_schedule :: "int \<Rightarrow> string \<Rightarrow> string \<Rightarrow> sched_item list" where
  "get_detailed_schedule phase day_type mode =
    (if mode = ''off'' then
       [([0xC804, 0xC77C], \<comment> \<open>line 407: OFF mode (full rest)\<close>
         [0x4F, 0x46, 0x46, 0x20, 0xBAA8, 0xB4DC, 0x20, 0x28, 0xC644, 0xC804, 0x20, 0xD734, 0xC2DD, 0x29],
         ''rest'', 0,
         [0xD479, 0x20, 0xC26C, 0xACE0, 0x20, 0xB0B4, 0xC77C, 0x20, 0xBCF5, 0xADC0, 0xD558, 0xC138, 0xC694])]
     else if day_type = ''weekday'' then
       [(u ''05:30'', \<comment> \<open>line 410: wake up + get ready\<close>
          [0xAE30, 0xC0C1, 0x20, 0x2B, 0x20, 0xC900, 0xBE44],
          ''morning'', 0,
          [0xBB3C, 0x20, 0xD55C, 0xC794, 0x2C, 0x20, 0xC138, 0xC218, 0x2C, 0x20, 0xC2A4, 0xD2B8, 0xB808, 0xCE6D]),
        (u ''06:00-07:20'', \<comment> \<open>line 411: commute to work\<close>
          [0xCD9C, 0xADFC, 0x20, 0xC774, 0xB3D9],
          ''morning'', 0,
          [])]
       @ (if phase \<ge> 1 then
          [(u ''07:40-08:40'', \<comment> \<open>line 413: morning cafe attendance\<close>
             [0x2615, 0x20, 0xC544, 0xCE68, 0x20, 0xCE74, 0xD398, 0x20, 0xCD9C, 0xC11D],
             ''study'', 0,
             [0xCE74, 0xD398, 0x20, 0xB3C4, 0xCC29, 0x20, 0x3D, 0x20, 0xC624, 0xB298, 0x20, 0x35, 0x30, 0x25, 0x20, 0xC131, 0xACF5])]
        else [])
       @ (if phase \<ge> 2 then
          [(u ''07:40-08:10'', \<comment> \<open>line 415: sub-block: rewatch the lecture of the day before\<close>
             [0x20, 0x20, 0x20, 0x2514, 0x20, 0xC804, 0xB0A0, 0x20, 0xC778, 0xAC15, 0x20, 0xB2E4, 0xC2DC, 0x20, 0xBCF4, 0xAE30],
             ''study'', 30,
             [0xD45C, 0xC2DC, 0xD574, 0xB454, 0x20, 0xAD6C, 0xAC04, 0xB9CC, 0x20, 0xBCF5, 0xC2B5]),
           (u ''08:10-08:40'', \<comment> \<open>line 416: sub-block: review problem set\<close>
             [0x20, 0x20, 0x20, 0x2514, 0x20, 0xBCF5, 0xC2B5, 0xC6A9, 0x20, 0xBB38, 0xD480],
             ''study'', 30,
             [0xC804, 0xB0A0, 0x20, 0xAC15, 0xC758, 0x20, 0xB0B4, 0xC6A9, 0x20, 0x35, 0x7E, 0x37, 0xBB38, 0xC81C])]
        else [])
       @ [(u ''09:00-18:00'', \<comment> \<open>line 417: office\<close>
          [0x1F4BC, 0x20, 0xD68C, 0xC0AC],
          ''work'', 0,
          []),
        (u ''18:00-20:00'', \<comment> \<open>line 418: leave work + dinner\<close>
          [0xD1F4, 0xADFC, 0x20, 0x2B, 0x20, 0xC800, 0xB141],
          ''rest'', 0,
          []),
        (u ''20:00-20:45'', \<comment> \<open>line 419: evening rest\<close>
          [0xC800, 0xB141, 0x20, 0xD734, 0xC2DD],
          ''rest'', 0,
          [0xC720, 0xD29C, 0xBE0C, 0x2F, 0xAC8C, 0xC784, 0x20, 0xAC00, 0xB2A5, 0x20, 0x28, 0xACF5, 0xBD80, 0x20, 0xC2DC, 0xC791, 0x20, 0xC804, 0xAE4C, 0xC9C0, 0xB9CC, 0x29])]
       @ (if phase \<ge> 1 then
          [(u ''20:45'', \<comment> \<open>line 421: evening attendance (sit down)\<close>
             [0x1FA91, 0x20, 0xC800, 0xB141, 0x20, 0xCD9C, 0xC11D, 0x20, 0x28, 0xC549, 0xAE30, 0x29],
             ''study'', 0,
             [0xC758, 0xC790, 0xC5D0, 0x20, 0xC549, 0xB294, 0x20, 0xC21C, 0xAC04, 0x20, 0x37, 0x30, 0x25, 0x20, 0xC131, 0xACF5])]
        else [])
       @ (if phase = 1 then
          [(u ''20:45-21:30'', \<comment> \<open>line 423: sub-block: lecture playing / book open\<close>
             [0x20, 0x20, 0x20, 0x2514, 0x20, 0xC778, 0xAC15, 0x20, 0xD2C0, 0xC5B4, 0xB193, 0xAE30, 0x2F, 0xCC45, 0x20, 0xD3B4, 0xB193, 0xAE30],
             ''study'', 45,
             [0xC774, 0xD574, 0x20, 0x30, 0x25, 0xC5EC, 0xB3C4, 0x20, 0xC0C1, 0xAD00, 0xC5C6, 0xC74C, 0x2C, 0x20, 0xBAA8, 0xC591, 0xB9CC]),
           (u ''21:30-22:00'', \<comment> \<open>line 424: exercise 30 min\<close>
             [0x1F3CB, 0xFE0F, 0x20, 0xC6B4, 0xB3D9, 0x20, 0x33, 0x30, 0xBD84],
             ''exercise'', 0,
             [0xB85C, 0xC789, 0x2F, 0xC720, 0xC0B0, 0xC18C]),
           (u ''22:00-22:20'', \<comment> \<open>line 425: shower\<close>
             [0x1F6BF, 0x20, 0xC0E4, 0xC6CC],
             ''exercise'', 0,
             [0xBAA8, 0xB4DC, 0x20, 0xC804, 0xD658, 0x20, 0xC758, 0xC2DD]),
           (u ''22:20-23:00'', \<comment> \<open>line 426: stay at the desk\<close>
             [0xCC45, 0xC0C1, 0x20, 0xC55E, 0x20, 0xC720, 0xC9C0],
             ''study'', 0,
             [0xBBFC, 0xBC95, 0xCC45, 0x20, 0xD3BC, 0xCCD0, 0xBCF4, 0xAE30, 0x2C, 0x20, 0xC790, 0xC11C, 0xC804, 0x20, 0xC77D, 0xAE30, 0x2C, 0x20, 0xBA4D])]
        else if phase = 2 then
          [(u ''20:45-21:30'', \<comment> \<open>line 428: lecture 1\<close>
             [0x1F4DA, 0x20, 0xC778, 0xAC15, 0x20, 0x31, 0xAC15],
             ''study'', 45,
             [0xC81C, 0xB300, 0xB85C, 0x20, 0xB4E4, 0xC5B4, 0xBCF4, 0xB824, 0xACE0, 0x20, 0xB178, 0xB825]),
           (u ''21:30-22:00'', \<comment> \<open>line 429: exercise 30 min\<close>
             [0x1F3CB, 0xFE0F, 0x20, 0xC6B4, 0xB3D9, 0x20, 0x33, 0x30, 0xBD84],
             ''exercise'', 0,
             []),
           (u ''22:00-22:20'', \<comment> \<open>line 430: shower\<close>
             [0x1F6BF, 0x20, 0xC0E4, 0xC6CC],
             ''exercise'', 0,
             []),
           (u ''22:20-23:00'', \<comment> \<open>line 431: lecture continued or review\<close>
             [0x1F4DA, 0x20, 0xC778, 0xAC15, 0x20, 0xC774, 0xC5B4, 0xC11C, 0x20, 0x6F, 0x72, 0x20, 0xBCF5, 0xC2B5],
             ''study'', 40,
             [0x32, 0xBC88, 0xC9F8, 0x20, 0xAC15, 0xC758, 0x20, 0xC2DC, 0xC791, 0xD574, 0xBCF4, 0xAE30])]
        else if phase = 3 then
          [(u ''20:45-21:30'', \<comment> \<open>line 433: lecture 1\<close>
             [0x1F4DA, 0x20, 0xC778, 0xAC15, 0x20, 0x31, 0xAC15],
             ''study'', 45,
             []),
           (u ''21:30-21:50'', \<comment> \<open>line 434: 1st problem set\<close>
             [0x270F, 0xFE0F, 0x20, 0x31, 0xCC28, 0x20, 0xBB38, 0xD480],
             ''study'', 20,
             [0xBC29, 0xAE08, 0x20, 0xB4E4, 0xC740, 0x20, 0x31, 0xAC15, 0x20, 0xAD00, 0xB828, 0x20, 0x34, 0x2D, 0x36, 0xBB38, 0xC81C]),
           (u ''21:50-22:20'', \<comment> \<open>line 435: exercise 30 min\<close>
             [0x1F3CB, 0xFE0F, 0x20, 0xC6B4, 0xB3D9, 0x20, 0x33, 0x30, 0xBD84],
             ''exercise'', 0,
             []),
           (u ''22:20-22:35'', \<comment> \<open>line 436: shower\<close>
             [0x1F6BF, 0x20, 0xC0E4, 0xC6CC],
             ''exercise'', 0,
             []),
           (u ''22:35-23:20'', \<comment> \<open>line 437: lecture 2\<close>
             [0x1F4DA, 0x20, 0xC778, 0xAC15, 0x20, 0x32, 0xAC15],
             ''study'', 45,
             []),
           (u ''23:20-23:40'', \<comment> \<open>line 438: review + summary\<close>
             [0x1F4D6, 0x20, 0xBCF5, 0xC2B5, 0x20, 0x2B, 0x20, 0xC815, 0xB9AC],
             ''study'', 20,
             [0xC624, 0xB298, 0x20, 0xB0B4, 0xC6A9, 0x20, 0xD575, 0xC2EC, 0x20, 0xBA54, 0xBAA8])]
        else if phase = 4 then
          [(u ''20:45-21:30'', \<comment> \<open>line 440: lecture 1\<close>
             [0x1F4DA, 0x20, 0xC778, 0xAC15, 0x20, 0x31, 0xAC15],
             ''study'', 45,
             [0xC624, 0xB298, 0x20, 0x33, 0xAC15, 0x20, 0xC911, 0x20, 0x31, 0xAC15]),
           (u ''21:30-21:50'', \<comment> \<open>line 441: 1st problem set\<close>
             [0x270F, 0xFE0F, 0x20, 0x31, 0xCC28, 0x20, 0xBB38, 0xD480],
             ''study'', 20,
             [0x31, 0xAC15, 0x20, 0xAD00, 0xB828, 0x20, 0x34, 0x2D, 0x36, 0xBB38, 0xC81C]),
           (u ''21:50-22:20'', \<comment> \<open>line 442: exercise 30 min\<close>
             [0x1F3CB, 0xFE0F, 0x20, 0xC6B4, 0xB3D9, 0x20, 0x33, 0x30, 0xBD84],
             ''exercise'', 0,
             [0xC6D4, 0x2F, 0xC218, 0x2F, 0xAE08, 0x20, 0x6F, 0x72, 0x20, 0xD654, 0x2F, 0xBAA9]),
           (u ''22:20-22:35'', \<comment> \<open>line 443: shower 15 min\<close>
             [0x1F6BF, 0x20, 0xC0E4, 0xC6CC, 0x20, 0x31, 0x35, 0xBD84],
             ''exercise'', 0,
             [0xACF5, 0xBD80, 0x20, 0xBAA8, 0xB4DC, 0x20, 0xC2A4, 0xC704, 0xCE58, 0x20, 0x4F, 0x4E]),
           (u ''22:35-23:20'', \<comment> \<open>line 444: lecture 2\<close>
             [0x1F4DA, 0x20, 0xC778, 0xAC15, 0x20, 0x32, 0xAC15],
             ''study'', 45,
             []),
           (u ''23:20-23:35'', \<comment> \<open>line 445: 2nd problem set\<close>
             [0x270F, 0xFE0F, 0x20, 0x32, 0xCC28, 0x20, 0xBB38, 0xD480],
             ''study'', 15,
             [0x32, 0xAC15, 0x20, 0xAD00, 0xB828, 0x20, 0x33, 0x2D, 0x35, 0xBB38, 0xC81C]),
           (u ''23:35-00:20'', \<comment> \<open>line 446: lecture 3\<close>
             [0x1F4DA, 0x20, 0xC778, 0xAC15, 0x20, 0x33, 0xAC15],
             ''study'', 45,
             [0xD53C, 0xACE4, 0xD558, 0xBA74, 0x20, 0xD2C0, 0xC5B4, 0xB193, 0xAE30, 0x20, 0xBAA8, 0xB4DC, 0x20, 0xD5C8, 0xC6A9]),
           (u ''00:20-00:40'', \<comment> \<open>line 447: closing problem set + summary\<close>
             [0x270F, 0xFE0F, 0x20, 0xB9C8, 0xAC10, 0x20, 0xBB38, 0xD480, 0x20, 0x2B, 0x20, 0xC815, 0xB9AC],
             ''study'', 20,
             [0xD575, 0xC2EC, 0x20, 0x33, 0x2D, 0x35, 0xC904, 0x20, 0xBA54, 0xBAA8, 0x2C, 0x20, 0xB0B4, 0xC77C, 0x20, 0xBCF5, 0xC2B5, 0x20, 0xD3EC, 0xC778, 0xD2B8, 0x20, 0xD45C, 0xC2DC])]
        else [])
       @ [(u ''00:40-01:00'', \<comment> \<open>line 448: free time + bedtime preparation\<close>
          [0xC790, 0xC720, 0xC2DC, 0xAC04, 0x20, 0x2B, 0x20, 0xCDE8, 0xCE68, 0x20, 0xC900, 0xBE44],
          ''rest'', 0,
          []),
        (u ''01:00'', \<comment> \<open>line 449: sleep\<close>
          [0x1F4A4, 0x20, 0xCDE8, 0xCE68],
          ''rest'', 0,
          [0x30, 0x35, 0x3A, 0x33, 0x30, 0x20, 0xAE30, 0xC0C1, 0x20, 0xB9AC, 0xB4EC, 0x20, 0xC720, 0xC9C0])]
     else
       [(u ''09:00-09:30'', \<comment> \<open>line 451: wake up + wash + tidy\<close>
          [0xAE30, 0xC0C1, 0x20, 0x2B, 0x20, 0xC53B, 0xAE30, 0x20, 0x2B, 0x20, 0xC815, 0xB9AC],
          ''morning'', 0,
          [])]
       @ (if phase \<ge> 1 then
          [(u ''09:30-10:30'', \<comment> \<open>line 453: morning review block\<close>
             [0x2615, 0x20, 0xC544, 0xCE68, 0x20, 0xBCF5, 0xC2B5, 0x20, 0xBE14, 0xB85D],
             ''study'', 60,
             [0xC804, 0xB0A0, 0x2F, 0xD55C, 0x20, 0xC8FC, 0x20, 0xB204, 0xC801, 0x20, 0xBCF5, 0xC2B5])]
        else [])
       @ (if phase = 1 then
          [(u ''10:30-12:00'', \<comment> \<open>line 455: play a lecture\<close>
             [0x1F4DA, 0x20, 0xC778, 0xAC15, 0x20, 0xD2C0, 0xAE30],
             ''study'', 60,
             [0x31, 0xAC15, 0xB9CC, 0x20, 0xB05D, 0xB098, 0xB3C4, 0x20, 0xB300, 0xC131, 0xACF5, 0x2C, 0x20, 0xBAA8, 0xC591, 0x20, 0xC720, 0xC9C0]),
           (u ''12:00-13:00'', \<comment> \<open>line 456: lunch + rest\<close>
             [0xC810, 0xC2EC, 0x20, 0x2B, 0x20, 0xD734, 0xC2DD],
             ''rest'', 0,
             []),
           (u ''13:00-15:00'', \<comment> \<open>line 457: lecture or hold\<close>
             [0x1F4DA, 0x20, 0xC778, 0xAC15, 0x20, 0x6F, 0x72, 0x20, 0xC720, 0xC9C0],
             ''study'', 60,
             [0xD55C, 0x20, 0xBE14, 0xB85D, 0xB9CC, 0x20, 0xC549, 0xC544, 0xC788, 0xC5B4, 0xB3C4, 0x20, 0xC131, 0xACF5])]
        else if phase = 2 then
          [(u ''10:30-12:00'', \<comment> \<open>line 459: lecture 1~2\<close>
             [0x1F4DA, 0x20, 0xC778, 0xAC15, 0x20, 0x31, 0x7E, 0x32, 0xAC15],
             ''study'', 90,
             []),
           (u ''12:00-13:00'', \<comment> \<open>line 460: lunch + rest\<close>
             [0xC810, 0xC2EC, 0x20, 0x2B, 0x20, 0xD734, 0xC2DD],
             ''rest'', 0,
             []),
           (u ''13:00-15:00'', \<comment> \<open>line 461: lecture continued\<close>
             [0x1F4DA, 0x20, 0xC778, 0xAC15, 0x20, 0xC774, 0xC5B4, 0xC11C],
             ''study'', 90,
             [0xD558, 0xB8E8, 0x20, 0x33, 0x2D, 0x34, 0xAC15, 0x20, 0xBAA9, 0xD45C]),
           (u ''15:30-17:30'', \<comment> \<open>line 462: light problem set / review\<close>
             [0x1F4D6, 0x20, 0xAC00, 0xBCBC, 0xC6B4, 0x20, 0xBB38, 0xD480, 0x2F, 0xBCF5, 0xC2B5],
             ''study'', 60,
             [])]
        else if phase = 3 then
          [(u ''10:30-12:00'', \<comment> \<open>line 464: morning lecture 2\<close>
             [0x1F4DA, 0x20, 0xC624, 0xC804, 0x20, 0xC778, 0xAC15, 0x20, 0x32, 0xAC15],
             ''study'', 90,
             []),
           (u ''12:00-13:00'', \<comment> \<open>line 465: lunch\<close>
             [0xC810, 0xC2EC],
             ''rest'', 0,
             []),
           (u ''13:00-15:00'', \<comment> \<open>line 466: afternoon first-half lecture 2\<close>
             [0x1F4DA, 0x20, 0xC624, 0xD6C4, 0x20, 0xC804, 0xBC18, 0x20, 0xC778, 0xAC15, 0x20, 0x32, 0xAC15],
             ''study'', 90,
             []),
           (u ''15:00-16:00'', \<comment> \<open>line 467: problem set, round 1\<close>
             [0x270F, 0xFE0F, 0x20, 0xBB38, 0xD480, 0x20, 0x31, 0xCC28],
             ''study'', 60,
             [0xC624, 0xC804, 0x20, 0x34, 0xAC15, 0x20, 0xAD00, 0xB828, 0x20, 0x31, 0x35, 0x2D, 0x32, 0x30, 0xBB38, 0xC81C]),
           (u ''16:00-17:30'', \<comment> \<open>line 468: late-afternoon lecture\<close>
             [0x1F4DA, 0x20, 0xC624, 0xD6C4, 0x20, 0xD6C4, 0xBC18, 0x20, 0xC778, 0xAC15],
             ''study'', 90,
             [])]
        else if phase = 4 then
          [(u ''09:30-10:30'', \<comment> \<open>line 470: morning review\<close>
             [0x2615, 0x20, 0xC544, 0xCE68, 0x20, 0xBCF5, 0xC2B5],
             ''study'', 60,
             [0xBCF5, 0xC2B5, 0xC6A9, 0x20, 0xBB38, 0xD480, 0x20, 0x31, 0x30, 0x2D, 0x31, 0x35, 0xBB38, 0xC81C]),
           (u ''10:30-12:00'', \<comment> \<open>line 471: morning lecture 2\<close>
             [0x1F4DA, 0x20, 0xC624, 0xC804, 0x20, 0xC778, 0xAC15, 0x20, 0x32, 0xAC15],
             ''study'', 90,
             []),
           (u ''12:00-13:00'', \<comment> \<open>line 472: lunch + rest\<close>
             [0xC810, 0xC2EC, 0x20, 0x2B, 0x20, 0xD734, 0xC2DD],
             ''rest'', 0,
             [0xC0B0, 0xCC45, 0x20, 0x31, 0x30, 0xBD84]),
           (u ''13:00-14:30'', \<comment> \<open>line 473: afternoon lecture 2\<close>
             [0x1F4DA, 0x20, 0xC624, 0xD6C4, 0x20, 0xC778, 0xAC15, 0x20, 0x32, 0xAC15],
             ''study'', 90,
             [0xC774, 0x20, 0xC2DC, 0xC810, 0x20, 0x34, 0x2F, 0x36, 0xAC15, 0x20, 0xC644, 0xB8CC]),
           (u ''14:30-15:30'', \<comment> \<open>line 474: problem set, round 1\<close>
             [0x270F, 0xFE0F, 0x20, 0xBB38, 0xD480, 0x20, 0x31, 0xCC28],
             ''study'', 60,
             [0xC624, 0xC804, 0x20, 0x34, 0xAC15, 0x20, 0xAD00, 0xB828, 0x20, 0x31, 0x35, 0x2D, 0x32, 0x35, 0xBB38, 0xC81C]),
           (u ''15:30-17:00'', \<comment> \<open>line 475: late-afternoon lecture 2\<close>
             [0x1F4DA, 0x20, 0xC624, 0xD6C4, 0x20, 0xD6C4, 0xBC18, 0x20, 0xC778, 0xAC15, 0x20, 0x32, 0xAC15],
             ''study'', 90,
             [0x36, 0xAC15, 0x20, 0xB9C8, 0xBB34, 0xB9AC]),
           (u ''17:00-18:00'', \<comment> \<open>line 476: dinner + rest\<close>
             [0xC800, 0xB141, 0x20, 0x2B, 0x20, 0xD734, 0xC2DD],
             ''rest'', 0,
             []),
           (u ''18:00-19:30'', \<comment> \<open>line 477: problem set, round 2\<close>
             [0x270F, 0xFE0F, 0x20, 0xBB38, 0xD480, 0x20, 0x32, 0xCC28],
             ''study'', 90,
             [0xD558, 0xB8E8, 0x20, 0xC804, 0xCCB4, 0x20, 0x2B, 0x20, 0xC8FC, 0xAC04, 0x20, 0xB204, 0xC801, 0x20, 0x32, 0x30, 0x2D, 0x33, 0x30, 0xBB38, 0xC81C]),
           (u ''19:30-20:00'', \<comment> \<open>line 478: summary + preparation for tomorrow\<close>
             [0x1F4DD, 0x20, 0xC815, 0xB9AC, 0x20, 0x2B, 0x20, 0xB0B4, 0xC77C, 0x20, 0xC900, 0xBE44],
             ''study'', 30,
             [0xD575, 0xC2EC, 0x20, 0xBA54, 0xBAA8, 0x2C, 0x20, 0xB0B4, 0xC77C, 0x20, 0xBCF5, 0xC2B5, 0x20, 0xD3EC, 0xC778, 0xD2B8])]
        else [])
       @ [(u ''20:00 '' @ [0xC774, 0xD6C4], \<comment> \<open>line 479: free time + walk\<close>
          [0xC790, 0xC720, 0xC2DC, 0xAC04, 0x20, 0x2B, 0x20, 0xC0B0, 0xCC45],
          ''rest'', 0,
          [])])"

text \<open>
  The name under which a block is logged: \<open>name.strip()\<close>, and when that starts with
  the tree marker U+2514, the rest after it, stripped again.
\<close>

definition clean_name :: "ustr \<Rightarrow> ustr" where
  "clean_name name =
     (let c = py_strip name
      in if py_startswith c [0x2514] then py_strip (drop 1 c) else c)"

fun checkable_loop :: "sched_item list \<Rightarrow> (ustr \<times> int \<times> ustr) list" where
  "checkable_loop [] = []"
| "checkable_loop ((time, name, category, minutes, desc) # rest) =
     (if (category = ''study'' \<or> category = ''exercise'') \<and> minutes \<ge> 0
      then (clean_name name, minutes, desc) # checkable_loop rest
      else checkable_loop rest)"

definition get_checkable_blocks :: "int \<Rightarrow> string \<Rightarrow> string \<Rightarrow> (ustr \<times> int \<times> ustr) list" where
  "get_checkable_blocks phase day_type mode =
     checkable_loop (get_detailed_schedule phase day_type mode)"

text \<open>\<open>sum([m for _, m, _ in checkable])\<close>, the possible study minutes of a day.\<close>

definition total_possible :: "int \<Rightarrow> string \<Rightarrow> string \<Rightarrow> int" where
  "total_possible phase day_type mode =
     sum_list (map (\<lambda>(n, m, d). m) (get_checkable_blocks phase day_type mode))"

section \<open>Floating point\<close>

text \<open>
  A finite Python \<open>float\<close> is an IEEE 754 binary64 number. It is modelled by its exact
  value, a real number, so that \<open><\<close> on floats (which is exact) is \<open><\<close> on \<open>real\<close>. The
  binary64 numbers are the values \<open>m * 2^e\<close> with \<open>|m| < 2^53\<close> and
  \<open>-1074 \<le> e \<le> 971\<close>; a decimal literal denotes the binary64 number nearest to it.
\<close>

definition is_binary64 :: "real \<Rightarrow> bool" where
  "is_binary64 x \<longleftrightarrow>
     (\<exists>m e :: int. \<bar>m\<bar> < 2 ^ 53 \<and> - 1074 \<le> e \<and> e \<le> 971 \<and> x = of_int m * 2 powi e)"

definition nearest_binary64 :: "real \<Rightarrow> real \<Rightarrow> bool" where
  "nearest_binary64 d x \<longleftrightarrow>
     is_binary64 x \<and> (\<forall>y. is_binary64 y \<and> y \<noteq> x \<longrightarrow> \<bar>x - d\<bar> < \<bar>y - d\<bar>)"

text \<open>The float literals of the source: \<open>2.4\<close> (an example input), \<open>2.5\<close>, \<open>3.1\<close>, \<open>3.9\<close>, \<open>4.6\<close>.\<close>

definition lit_2_4 :: real where "lit_2_4 = 5404319552844595 / 2 ^ 51"
definition lit_2_5 :: real where "lit_2_5 = 5 / 2"
definition lit_3_1 :: real where "lit_3_1 = 6980579422424269 / 2 ^ 51"
definition lit_3_9 :: real where "lit_3_9 = 8782019273372467 / 2 ^ 51"
definition lit_4_6 :: real where "lit_4_6 = 5179139571476070 / 2 ^ 50"

text \<open>
  \<open>round(x, 1)\<close>: the multiple of \<open>1/10\<close> nearest to \<open>x\<close>. When \<open>x\<close> lies exactly
  half way between two of them, the result of the source depends on the binary
  representation of the operand and on the library that rounds (Python's \<open>float\<close> and
  NumPy's \<open>float64\<close> differ there), so the direction taken at a tie is the parameter
  \<open>up\<close>. The result is represented by the decimal it denotes; comparing it with an
  integer gives the same answer as comparing the binary64 number nearest to that decimal.
\<close>

definition py_round1 :: "bool \<Rightarrow> real \<Rightarrow> real" where
  "py_round1 up x =
     (let k = \<lfloor>x * 10\<rfloor>; r = x * 10 - of_int k
      in if r < 1 / 2 then of_int k / 10
         else if 1 / 2 < r then of_int (k + 1) / 10
         else if up then of_int (k + 1) / 10 else of_int k / 10)"

section \<open>Grades\<close>

definition get_daily_grade :: "real \<Rightarrow> string" where
  "get_daily_grade hours =
     (if hours < lit_2_5 then ''D-''
      else if hours < lit_3_1 then ''A''
      else if hours < lit_3_9 then ''B''
      else if hours < lit_4_6 then ''C''
      else ''S'')"

section \<open>The log and the subjects\<close>

text \<open>
  One row of the log table, with the columns of \<open>LOG_HEADERS\<close>. The nullable columns are
  options (\<open>None\<close> for \<open>pd.NA\<close>). A subject is the dictionary with the keys of
  \<open>SUBJECT_HEADERS\<close>.
\<close>

record log_row =
  row_date :: int
  row_phase :: int
  row_day_type :: string
  row_mode :: string
  row_block :: ustr
  row_done :: bool
  row_estimated_minutes :: int
  row_energy :: "int option"
  row_focus :: "int option"
  row_note :: ustr
  row_subject :: "ustr option"

record subject =
  subj_name :: ustr
  subj_total_lectures :: int
  subj_completed_lectures :: int
  subj_active :: bool

subsection \<open>Lecture credits\<close>

text \<open>The substrings \<open>get_lecture_increment\<close> looks for; "ingang" is an online lecture.\<close>

definition lecture_3 :: ustr where \<comment> \<open>"ingang 3gang", lecture 3\<close>
  "lecture_3 = [0xC778, 0xAC15, 0x20, 0x33, 0xAC15]"
definition lecture_2 :: ustr where \<comment> \<open>"ingang 2gang", lecture 2\<close>
  "lecture_2 = [0xC778, 0xAC15, 0x20, 0x32, 0xAC15]"
definition morning_lecture_2 :: ustr where \<comment> \<open>"ojeon ingang 2gang", morning lecture 2\<close>
  "morning_lecture_2 = [0xC624, 0xC804, 0x20, 0xC778, 0xAC15, 0x20, 0x32, 0xAC15]"
definition afternoon_lecture_2 :: ustr where \<comment> \<open>"ohu ingang 2gang", afternoon lecture 2\<close>
  "afternoon_lecture_2 = [0xC624, 0xD6C4, 0x20, 0xC778, 0xAC15, 0x20, 0x32, 0xAC15]"
definition late_lecture_2 :: ustr where \<comment> \<open>"huban ingang 2gang", second-half lecture 2\<close>
  "late_lecture_2 = [0xD6C4, 0xBC18, 0x20, 0xC778, 0xAC15, 0x20, 0x32, 0xAC15]"
definition lecture_1 :: ustr where \<comment> \<open>"ingang 1gang", lecture 1\<close>
  "lecture_1 = [0xC778, 0xAC15, 0x20, 0x31, 0xAC15]"
definition lecture_1_2 :: ustr where \<comment> \<open>"ingang 1~2gang", lectures 1 to 2\<close>
  "lecture_1_2 = [0xC778, 0xAC15, 0x20, 0x31, 0x7E, 0x32, 0xAC15]"
definition lecture_continue :: ustr where \<comment> \<open>"ingang ieoseo", lecture continued\<close>
  "lecture_continue = [0xC778, 0xAC15, 0x20, 0xC774, 0xC5B4, 0xC11C]"

definition get_lecture_increment :: "ustr \<Rightarrow> int" where
  "get_lecture_increment name =
     (if py_in lecture_3 name then 1
      else if py_in lecture_2 name then
        (if py_in morning_lecture_2 name \<or> py_in afternoon_lecture_2 name \<or> py_in late_lecture_2 name
         then 2 else 1)
      else if py_in lecture_1 name \<or> py_in lecture_1_2 name \<or> py_in lecture_continue name then 1
      else 0)"

definition lecture_credits_from_rows :: "log_row list \<Rightarrow> int" where
  "lecture_credits_from_rows rows =
     (if rows = [] then 0
      else sum_list (map (\<lambda>r. get_lecture_increment (row_block r)) (filter row_done rows)))"

text \<open>
  \<open>log_df.groupby("subject")\<close> yields one group per distinct subject that is not missing;
  the loop skips the empty name and stores the credits of every other group.
\<close>

definition compute_subject_progress :: "log_row list \<Rightarrow> (ustr \<rightharpoonup> int)" where
  "compute_subject_progress log_df =
     fold (\<lambda>subj progress.
             if subj = [] then progress
             else progress(subj \<mapsto>
                    lecture_credits_from_rows (filter (\<lambda>r. row_subject r = Some subj) log_df)))
          (remdups (List.map_filter row_subject log_df)) Map.empty"

subsection \<open>Subject synchronization\<close>

text \<open>
  The body of the loop over \<open>subjects\<close>: the subject after the step, and whether it was
  changed. The source updates the dictionaries in place and returns the same list; the
  model returns the updated list. \<open>sync_changed\<close> is the flag that makes the source call
  \<open>save_subjects\<close>.
\<close>

definition sync_subject :: "(ustr \<rightharpoonup> int) \<Rightarrow> subject \<Rightarrow> subject" where
  "sync_subject progress s =
     (case progress (subj_name s) of
        None \<Rightarrow> s
      | Some p \<Rightarrow>
          (let new_val = max p (subj_completed_lectures s)
           in if new_val \<noteq> subj_completed_lectures s
              then s\<lparr>subj_completed_lectures := new_val\<rparr> else s))"

definition sync_subjects_with_log :: "log_row list \<Rightarrow> subject list \<Rightarrow> subject list" where
  "sync_subjects_with_log log_df subjects =
     (if subjects = [] then subjects
      else map (sync_subject (compute_subject_progress log_df)) subjects)"

definition sync_changed :: "log_row list \<Rightarrow> subject list \<Rightarrow> bool" where
  "sync_changed log_df subjects \<longleftrightarrow>
     (\<exists>s \<in> set subjects. sync_subject (compute_subject_progress log_df) s \<noteq> s)"

subsection \<open>Attendance streak\<close>

text \<open>
  The loop over \<open>unique_dates\<close>, the distinct dates of the log in descending order, with
  the counter as accumulator: a future date is skipped, a date with a row that is done and
  is not the OFF row counts, and the first date without one ends the loop.
\<close>

fun streak_loop :: "log_row list \<Rightarrow> int \<Rightarrow> int list \<Rightarrow> nat \<Rightarrow> nat" where
  "streak_loop log_df today [] streak = streak"
| "streak_loop log_df today (d # ds) streak =
     (if d > today then streak_loop log_df today ds streak
      else
        (let day_rows = filter (\<lambda>r. row_date r = d) log_df
         in if day_rows = [] then streak
            else if \<exists>r \<in> set day_rows. row_done r \<and> row_block r \<noteq> u ''OFF''
                 then streak_loop log_df today ds (streak + 1)
                 else streak))"

definition unique_dates :: "log_row list \<Rightarrow> int list" where
  "unique_dates log_df = rev (sort (remdups (map row_date log_df)))"

definition streak :: "log_row list \<Rightarrow> int \<Rightarrow> nat" where
  "streak log_df today = streak_loop log_df today (unique_dates log_df) 0"

subsection \<open>Weekly summary\<close>



definition weekly_grade :: "real \<Rightarrow> string" where
  "weekly_grade th =
     (if th < 18 then ''D-'' else if th < 22 then ''A'' else if th < 27 then ''B''
      else if th < 32 then ''C'' else ''S'')"




section \<open>Check-in\<close>

text \<open>
  What the operator has entered when the save button is pressed. \<open>in_checked\<close> gives the
  value of the checkbox with key \<open>cb_<clean_name>\<close>; \<open>in_subject_options\<close> are the names
  of the active subjects and \<open>in_subject\<close> the selected one.
\<close>

record checkin =
  in_date :: int
  in_phase :: int
  in_day_type :: string
  in_mode :: string
  in_checked :: "ustr \<Rightarrow> bool"
  in_energy :: int
  in_focus :: int
  in_note :: ustr
  in_subject :: ustr
  in_subject_options :: "ustr list"

text \<open>
  \<open>d[k] = v\<close> on a Python dictionary, kept as the list of its items in insertion order: an
  existing key keeps its place and takes the new value, a new key goes to the end.
\<close>

fun dict_set :: "('k \<times> 'v) list \<Rightarrow> 'k \<Rightarrow> 'v \<Rightarrow> ('k \<times> 'v) list" where
  "dict_set [] k v = [(k, v)]"
| "dict_set ((k', v') # d) k v = (if k' = k then (k, v) # d else (k', v') # dict_set d k v)"

text \<open>
  The loop that renders the schedule: it fills \<open>block_meta\<close> for every item and
  \<open>checkbox_states\<close> for the study and exercise items.
\<close>

fun form_loop ::
  "(ustr \<Rightarrow> bool) \<Rightarrow> sched_item list \<Rightarrow> (ustr \<times> bool) list \<times> (ustr \<times> int \<times> string) list
     \<Rightarrow> (ustr \<times> bool) list \<times> (ustr \<times> int \<times> string) list" where
  "form_loop checked [] (checkbox_states, block_meta) = (checkbox_states, block_meta)"
| "form_loop checked ((time, name, category, minutes, desc) # rest) (checkbox_states, block_meta) =
     (let c = clean_name name;
          block_meta' = dict_set block_meta c (minutes, category);
          checkbox_states' =
            (if category = ''study'' \<or> category = ''exercise''
             then dict_set checkbox_states c (checked c) else checkbox_states)
      in form_loop checked rest (checkbox_states', block_meta'))"

definition new_rows :: "checkin \<Rightarrow> log_row list" where
  "new_rows inp =
     (if in_mode inp = ''off'' then
        [\<lparr>row_date = in_date inp, row_phase = in_phase inp, row_day_type = in_day_type inp,
          row_mode = in_mode inp, row_block = u ''OFF'', row_done = True,
          row_estimated_minutes = 0, row_energy = Some (in_energy inp),
          row_focus = Some (in_focus inp), row_note = in_note inp, row_subject = None\<rparr>]
      else
        (let (checkbox_states, block_meta) =
               form_loop (in_checked inp)
                 (get_detailed_schedule (in_phase inp) (in_day_type inp) (in_mode inp)) ([], [])
         in map (\<lambda>(block, done).
                   (let meta = map_of block_meta block;
                        est_min = (case meta of None \<Rightarrow> 0 | Some (minutes, category) \<Rightarrow> minutes);
                        subj_val =
                          (if (case meta of None \<Rightarrow> False | Some (minutes, category) \<Rightarrow> category = ''study'')
                              \<and> in_subject_options inp \<noteq> []
                           then Some (in_subject inp) else None)
                    in \<lparr>row_date = in_date inp, row_phase = in_phase inp,
                        row_day_type = in_day_type inp, row_mode = in_mode inp,
                        row_block = block, row_done = done,
                        row_estimated_minutes = (if done then est_min else 0),
                        row_energy = Some (in_energy inp), row_focus = Some (in_focus inp),
                        row_note = in_note inp, row_subject = subj_val\<rparr>))
                checkbox_states))"

text \<open>
  The save button: the rows of the selected date are removed, the new rows are appended,
  and the subjects are synchronized with the new log. The state is the pair of the log and
  the subjects that the session holds.
\<close>

definition save_log_rows :: "log_row list \<Rightarrow> checkin \<Rightarrow> log_row list" where
  "save_log_rows log_df inp =
     (let kept = filter (\<lambda>r. \<not> row_date r = in_date inp) log_df;
          rows = new_rows inp
      in if rows \<noteq> [] then kept @ rows else kept)"

definition save_button :: "log_row list \<times> subject list \<Rightarrow> checkin \<Rightarrow> log_row list \<times> subject list" where
  "save_button st inp =
     (let log_df = save_log_rows (fst st) inp
      in (log_df, sync_subjects_with_log log_df (snd st)))"

section \<open>Specification-level notions and example data\<close>

text \<open>\<open>contains s m\<close>: the string \<open>m\<close> occurs in \<open>s\<close> as a contiguous substring.\<close>

definition contains :: "ustr \<Rightarrow> ustr \<Rightarrow> bool" where
  "contains s m \<longleftrightarrow> (\<exists>pre suf. s = pre @ m @ suf)"

text \<open>
  The credits a log gives to a subject: the sum of the lecture increments of the rows that
  carry the subject and are done.
\<close>

definition derived_credits :: "log_row list \<Rightarrow> ustr \<Rightarrow> int" where
  "derived_credits log_df subj =
     sum_list (map (\<lambda>r. get_lecture_increment (row_block r))
                   (filter (\<lambda>r. row_subject r = Some subj \<and> row_done r) log_df))"

text \<open>A subject is matched by a log when its name is not empty and some row carries it.\<close>

definition matched :: "log_row list \<Rightarrow> ustr \<Rightarrow> bool" where
  "matched log_df subj \<longleftrightarrow> subj \<noteq> [] \<and> (\<exists>r \<in> set log_df. row_subject r = Some subj)"

text \<open>
  A row of a weekday in phase 3, normal mode, for the block "lecture 1" of 45 minutes,
  done, with a subject; and a log with such a row on 2026-11-04 (ordinal 739924), on the
  two days before, and on 2026-10-31, so that 2026-11-01 has no row.
\<close>

definition lecture_row :: "int \<Rightarrow> log_row" where
  "lecture_row d =
     \<lparr>row_date = d, row_phase = 3, row_day_type = ''weekday'', row_mode = ''normal'',
      row_block = [0x1F4DA, 0x20, 0xC778, 0xAC15, 0x20, 0x31, 0xAC15], row_done = True,
      row_estimated_minutes = 45, row_energy = Some 3, row_focus = Some 3, row_note = [],
      row_subject = Some (u ''law'')\<rparr>"

definition gap_log :: "log_row list" where
  "gap_log = [lecture_row 739920, lecture_row 739922, lecture_row 739923, lecture_row 739924]"

text \<open>A subject "law" with one lecture completed so far.\<close>

definition law_subject :: subject where
  "law_subject =
     \<lparr>subj_name = u ''law'', subj_total_lectures = 100, subj_completed_lectures = 1,
      subj_active = True\<rparr>"

text \<open>
  A check-in for 2026-11-04 as a weekday in phase 3, normal mode, with the blocks
  "lecture 1" and "1st problem set" ticked.
\<close>

definition example_checkin :: checkin where
  "example_checkin =
     \<lparr>in_date = 739924, in_phase = 3, in_day_type = ''weekday'', in_mode = ''normal'',
      in_checked = (\<lambda>n. n = [0x1F4DA, 0x20, 0xC778, 0xAC15, 0x20, 0x31, 0xAC15]
                       \<or> n = [0x270F, 0xFE0F, 0x20, 0x31, 0xCC28, 0x20, 0xBB38, 0xD480]),
      in_energy = 3, in_focus = 4, in_note = [], in_subject = u ''law'',
      in_subject_options = [u ''law'']\<rparr>"


section \<open>Week number\<close>

text \<open>
  Claim C8. For every pair of dates, \<open>get_week_number start_date target_date\<close> is
  \<open>max 1 (floor ((target_date - start_date) / 7) + 1)\<close>, where the quotient is the real
  quotient of the number of days by 7; in particular the week number is at least 1,
  also when the target date lies before the start date.
\<close>

theorem get_week_number_floor:
  "get_week_number start_date target_date
     = max 1 (\<lfloor>real_of_int (target_date - start_date) / 7\<rfloor> + 1)
   \<and> 1 \<le> get_week_number start_date target_date"
proof -
  have "\<lfloor>real_of_int (target_date - start_date) / real_of_int 7\<rfloor> = (target_date - start_date) div 7"
    by (rule floor_divide_of_int_eq)
  then show ?thesis
    by (simp add: get_week_number_def Let_def)
qed

section \<open>Schedules\<close>

lemmas sched_defs = get_checkable_blocks_def get_detailed_schedule_def clean_name_def
  py_strip_def py_isspace_def py_startswith_def

lemma total_weekday:
  assumes "mode \<noteq> ''off''"
  shows "total_possible 1 ''weekday'' mode = 45" "total_possible 2 ''weekday'' mode = 145"
    "total_possible 3 ''weekday'' mode = 190" "total_possible 4 ''weekday'' mode = 250"
  using assms by (simp_all add: total_possible_def get_checkable_blocks_def get_detailed_schedule_def)

lemma total_weekend:
  assumes "mode \<noteq> ''off''" "day_type \<noteq> ''weekday''"
  shows "total_possible 1 day_type mode = 180" "total_possible 2 day_type mode = 300"
    "total_possible 3 day_type mode = 390" "total_possible 4 day_type mode = 570"
  using assms by (simp_all add: total_possible_def get_checkable_blocks_def get_detailed_schedule_def)

lemma schedule_nonempty: "get_detailed_schedule phase day_type mode \<noteq> []"
  by (simp add: get_detailed_schedule_def)

text \<open>
  Claim C4. For every phase in 1..4, every day type and every mode other than off, the
  generated schedule is not empty, and for a fixed day type the total of the estimated
  minutes of the checkable blocks grows strictly with the phase: phase 1 < phase 2 <
  phase 3 < phase 4 (45 < 145 < 190 < 250 on a weekday, 180 < 300 < 390 < 570 otherwise).
\<close>

theorem total_possible_increasing:
  assumes "phase \<in> {1, 2, 3, 4}" and "mode \<noteq> ''off''"
  shows "get_detailed_schedule phase day_type mode \<noteq> []
       \<and> total_possible 1 day_type mode < total_possible 2 day_type mode
       \<and> total_possible 2 day_type mode < total_possible 3 day_type mode
       \<and> total_possible 3 day_type mode < total_possible 4 day_type mode"
proof (cases "day_type = ''weekday''")
  case True
  with assms(2) show ?thesis
    by (simp add: schedule_nonempty total_weekday)
next
  case False
  with assms(2) show ?thesis
    by (simp add: schedule_nonempty total_weekend)
qed

theorem total_possible_increasing_witness:
  "(3::int) \<in> {1, 2, 3, 4} \<and> ''normal'' \<noteq> ''off''
   \<and> get_detailed_schedule 3 ''sat'' ''normal'' \<noteq> []
   \<and> total_possible 1 ''sat'' ''normal'' < total_possible 2 ''sat'' ''normal''
   \<and> total_possible 2 ''sat'' ''normal'' < total_possible 3 ''sat'' ''normal''
   \<and> total_possible 3 ''sat'' ''normal'' < total_possible 4 ''sat'' ''normal''"
  using total_possible_increasing [of 3 "''normal''" "''sat''"] by simp

text \<open>
  Claim C10. On a weekday, in a mode other than off and with a phase of 0 or less, the
  schedule is still not empty (it is the seven framing blocks, of the categories morning,
  work and rest), none of its blocks is a study or exercise block, so there is no
  checkable block and the possible study minutes of the day are 0.
\<close>

theorem nonpositive_phase_weekday:
  assumes "phase \<le> 0" and "mode \<noteq> ''off''"
  shows "get_detailed_schedule phase ''weekday'' mode \<noteq> []
       \<and> map (\<lambda>(time, name, category, minutes, desc). category)
             (get_detailed_schedule phase ''weekday'' mode)
           = [''morning'', ''morning'', ''work'', ''rest'', ''rest'', ''rest'', ''rest'']
       \<and> get_checkable_blocks phase ''weekday'' mode = []
       \<and> total_possible phase ''weekday'' mode = 0"
proof -
  from assms(1) have ph: "\<not> 1 \<le> phase" "\<not> 2 \<le> phase" "phase \<noteq> 1" "phase \<noteq> 2" "phase \<noteq> 3" "phase \<noteq> 4"
    by simp_all
  show ?thesis
    using assms(2) ph
    by (simp add: total_possible_def get_checkable_blocks_def get_detailed_schedule_def)
qed

theorem nonpositive_phase_weekday_witness:
  "(0::int) \<le> 0 \<and> ''normal'' \<noteq> ''off''
   \<and> get_detailed_schedule 0 ''weekday'' ''normal'' \<noteq> []
   \<and> get_checkable_blocks 0 ''weekday'' ''normal'' = []
   \<and> total_possible 0 ''weekday'' ''normal'' = 0"
  using nonpositive_phase_weekday [of 0 "''normal''"] by simp

subsection \<open>Names of the checkable blocks\<close>

lemma distinct_weekday:
  assumes "mode \<noteq> ''off''"
  shows "distinct (map fst (get_checkable_blocks 1 ''weekday'' mode))"
    "distinct (map fst (get_checkable_blocks 2 ''weekday'' mode))"
    "distinct (map fst (get_checkable_blocks 3 ''weekday'' mode))"
    "distinct (map fst (get_checkable_blocks 4 ''weekday'' mode))"
  using assms by (simp_all add: sched_defs)

lemma distinct_weekend:
  assumes "mode \<noteq> ''off''" "day_type \<noteq> ''weekday''"
  shows "distinct (map fst (get_checkable_blocks 1 day_type mode))"
    "distinct (map fst (get_checkable_blocks 2 day_type mode))"
    "distinct (map fst (get_checkable_blocks 3 day_type mode))"
    "distinct (map fst (get_checkable_blocks 4 day_type mode))"
  using assms by (simp_all add: sched_defs)

lemma checkable_names_distinct:
  assumes "phase \<in> {1, 2, 3, 4}" and "mode \<noteq> ''off''"
  shows "distinct (map fst (get_checkable_blocks phase day_type mode))"
proof (cases "day_type = ''weekday''")
  case True
  with assms show ?thesis by (auto simp: distinct_weekday)
next
  case False
  with assms show ?thesis by (auto simp: distinct_weekend)
qed

lemma schedule_minutes_nonneg:
  "list_all (\<lambda>(time, name, category, minutes, desc). 0 \<le> minutes)
     (get_detailed_schedule phase day_type mode)"
  by (simp add: get_detailed_schedule_def)

section \<open>Check-in\<close>

lemma new_rows_date: "r \<in> set (new_rows inp) \<Longrightarrow> row_date r = in_date inp"
  by (auto simp: new_rows_def Let_def split: if_splits prod.splits)

lemma filter_new_rows_other: "filter (\<lambda>r. \<not> row_date r = in_date inp) (new_rows inp) = []"
  by (simp add: filter_empty_conv new_rows_date)

lemma filter_new_rows_same: "filter (\<lambda>r. row_date r = in_date inp) (new_rows inp) = new_rows inp"
  by (simp add: filter_id_conv new_rows_date)

lemma save_log_rows_idem: "save_log_rows (save_log_rows log_df inp) inp = save_log_rows log_df inp"
  by (simp add: save_log_rows_def Let_def filter_new_rows_other)

lemma save_log_rows_date:
  "filter (\<lambda>r. row_date r = in_date inp) (save_log_rows log_df inp) = new_rows inp"
  by (simp add: save_log_rows_def Let_def filter_new_rows_same)

lemma sync_subject_name: "subj_name (sync_subject progress s) = subj_name s"
  by (simp add: sync_subject_def Let_def split: option.splits)

lemma sync_subject_idem: "sync_subject progress (sync_subject progress s) = sync_subject progress s"
  by (simp add: sync_subject_def Let_def split: option.splits)

lemma sync_subjects_idem:
  "sync_subjects_with_log log_df (sync_subjects_with_log log_df subjects)
     = sync_subjects_with_log log_df subjects"
  by (simp add: sync_subjects_with_log_def sync_subject_idem)

text \<open>
  Claim C2. Saving a check-in is idempotent: for every state and every input, pressing
  save a second time with the same input leaves the state (the log, and the subjects too)
  exactly as the first save left it, and after a save the rows of the selected date are
  exactly the rows built from the input, because the save removes every row of that date
  before it appends the new ones.
\<close>

theorem save_button_idempotent:
  "save_button (save_button st inp) inp = save_button st inp
   \<and> filter (\<lambda>r. row_date r = in_date inp) (fst (save_button st inp)) = new_rows inp"
proof -
  let ?log = "save_log_rows (fst st) inp"
  let ?subjects = "sync_subjects_with_log ?log (snd st)"
  have once: "save_button st inp = (?log, ?subjects)"
    by (simp add: save_button_def Let_def)
  have "save_button (?log, ?subjects) inp
          = (save_log_rows ?log inp, sync_subjects_with_log (save_log_rows ?log inp) ?subjects)"
    by (simp add: save_button_def Let_def)
  also have "save_log_rows ?log inp = ?log"
    by (rule save_log_rows_idem)
  also have "sync_subjects_with_log ?log ?subjects = ?subjects"
    by (rule sync_subjects_idem)
  finally have twice: "save_button (save_button st inp) inp = save_button st inp"
    by (simp only: once)
  have "filter (\<lambda>r. row_date r = in_date inp) ?log = new_rows inp"
    by (rule save_log_rows_date)
  then have "filter (\<lambda>r. row_date r = in_date inp) (fst (save_button st inp)) = new_rows inp"
    by (simp only: once fst_conv)
  with twice show ?thesis ..
qed

lemma new_rows_blocks:
  "in_mode inp \<noteq> ''off'' \<Longrightarrow>
   map row_block (new_rows inp)
     = map fst (fst (form_loop (in_checked inp)
          (get_detailed_schedule (in_phase inp) (in_day_type inp) (in_mode inp)) ([], [])))"
  by (simp add: new_rows_def Let_def split_beta comp_def)

lemma dict_set_keys:
  "map fst (dict_set d k v) = (if k \<in> set (map fst d) then map fst d else map fst d @ [k])"
  by (induction d k v rule: dict_set.induct) auto

lemma form_loop_keys:
  "distinct (map fst cs @ map fst (checkable_loop sched)) \<Longrightarrow>
   list_all (\<lambda>(time, name, category, minutes, desc). 0 \<le> minutes) sched \<Longrightarrow>
   map fst (fst (form_loop chk sched (cs, bm))) = map fst cs @ map fst (checkable_loop sched)"
proof (induction sched arbitrary: cs bm)
  case Nil
  then show ?case by simp
next
  case (Cons item rest)
  obtain time name category minutes desc where item: "item = (time, name, category, minutes, desc)"
    by (cases item) auto
  show ?case
  proof (cases "category = ''study'' \<or> category = ''exercise''")
    case True
    let ?cs = "dict_set cs (clean_name name) (chk (clean_name name))"
    from Cons.prems True item have new: "clean_name name \<notin> set (map fst cs)"
      by auto
    then have keys: "map fst ?cs = map fst cs @ [clean_name name]"
      by (simp add: dict_set_keys)
    from Cons.prems True item
    have "distinct (map fst ?cs @ map fst (checkable_loop rest))"
      by (simp add: keys)
    moreover from Cons.prems item
    have "list_all (\<lambda>(time, name, category, minutes, desc). 0 \<le> minutes) rest" by simp
    ultimately have "map fst (fst (form_loop chk rest (?cs, dict_set bm (clean_name name) (minutes, category))))
        = map fst ?cs @ map fst (checkable_loop rest)"
      by (rule Cons.IH)
    with True item Cons.prems show ?thesis
      by (simp add: Let_def keys)
  next
    case False
    from Cons.prems False item
    have "distinct (map fst cs @ map fst (checkable_loop rest))" by simp
    moreover from Cons.prems item
    have "list_all (\<lambda>(time, name, category, minutes, desc). 0 \<le> minutes) rest" by simp
    ultimately have "map fst (fst (form_loop chk rest (cs, dict_set bm (clean_name name) (minutes, category))))
        = map fst cs @ map fst (checkable_loop rest)"
      by (rule Cons.IH)
    with False item show ?thesis
      by (simp add: Let_def)
  qed
qed

lemma new_rows_keys:
  assumes "in_mode inp \<noteq> ''off''"
    and "distinct (map fst (get_checkable_blocks (in_phase inp) (in_day_type inp) (in_mode inp)))"
  shows "map row_block (new_rows inp)
           = map fst (get_checkable_blocks (in_phase inp) (in_day_type inp) (in_mode inp))"
proof -
  let ?sched = "get_detailed_schedule (in_phase inp) (in_day_type inp) (in_mode inp)"
  have "map fst (fst (form_loop (in_checked inp) ?sched ([], [])))
          = map fst ([] :: (ustr \<times> bool) list) @ map fst (checkable_loop ?sched)"
    by (rule form_loop_keys) (use assms(2) in \<open>simp_all add: get_checkable_blocks_def schedule_minutes_nonneg\<close>)
  with assms(1) show ?thesis
    by (simp add: new_rows_blocks get_checkable_blocks_def)
qed

lemma distinct_date_block:
  "distinct (map row_block rows) \<Longrightarrow> distinct (map (\<lambda>r. (row_date r, row_block r)) rows)"
  by (induction rows) auto

text \<open>
  Claim C9. For every phase in 1..4, every day type and the modes normal and low, the
  cleaned names of the checkable blocks are pairwise distinct; so a check-in with that
  phase, day type and mode writes exactly one row per checkable block, in the order of
  the schedule, and the pair of date and block identifies a row among the rows it writes.
\<close>

theorem checkin_rows_unique:
  assumes "phase \<in> {1, 2, 3, 4}" and "mode = ''normal'' \<or> mode = ''low''"
    and "in_phase inp = phase" and "in_day_type inp = day_type" and "in_mode inp = mode"
  shows "distinct (map fst (get_checkable_blocks phase day_type mode))
       \<and> map row_block (new_rows inp) = map fst (get_checkable_blocks phase day_type mode)
       \<and> distinct (map (\<lambda>r. (row_date r, row_block r)) (new_rows inp))"
proof -
  from assms(2) have off: "mode \<noteq> ''off''" by auto
  have d: "distinct (map fst (get_checkable_blocks phase day_type mode))"
    using assms(1) off by (rule checkable_names_distinct)
  have k: "map row_block (new_rows inp) = map fst (get_checkable_blocks phase day_type mode)"
    using new_rows_keys [of inp] off d assms(3-5) by simp
  have "distinct (map row_block (new_rows inp))"
    using d k by simp
  then have "distinct (map (\<lambda>r. (row_date r, row_block r)) (new_rows inp))"
    by (rule distinct_date_block)
  with d k show ?thesis by simp
qed

theorem checkin_rows_unique_witness:
  "in_phase example_checkin \<in> {1, 2, 3, 4} \<and> in_mode example_checkin = ''normal''
   \<and> distinct (map fst (get_checkable_blocks 3 ''weekday'' ''normal''))
   \<and> length (new_rows example_checkin) = 10
   \<and> distinct (map (\<lambda>r. (row_date r, row_block r)) (new_rows example_checkin))"
proof -
  have ex: "in_phase example_checkin = 3" "in_day_type example_checkin = ''weekday''"
    "in_mode example_checkin = ''normal''"
    by (simp_all add: example_checkin_def)
  have len: "length (get_checkable_blocks 3 ''weekday'' ''normal'') = 10"
    by (simp add: get_checkable_blocks_def get_detailed_schedule_def)
  note u = checkin_rows_unique [of 3 "''normal''" example_checkin "''weekday''"]
  from u ex have "map row_block (new_rows example_checkin)
      = map fst (get_checkable_blocks 3 ''weekday'' ''normal'')"
    by simp
  then have "length (map row_block (new_rows example_checkin))
      = length (map fst (get_checkable_blocks 3 ''weekday'' ''normal''))"
    by (rule arg_cong)
  then have "length (new_rows example_checkin) = 10"
    using len by simp
  with u ex show ?thesis by simp
qed

section \<open>Subjects\<close>

lemma fold_progress:
  "fold (\<lambda>subj progress. if subj = [] then progress else progress(subj \<mapsto> f subj)) xs m
     = (\<lambda>k. if k \<in> set xs \<and> k \<noteq> [] then Some (f k) else m k)"
proof (induction xs arbitrary: m)
  case Nil
  show ?case by simp
next
  case (Cons x xs)
  show ?case by (auto simp: Cons.IH fun_eq_iff)
qed

lemma set_map_filter_subject:
  "k \<in> set (List.map_filter row_subject log_df) \<longleftrightarrow> (\<exists>r \<in> set log_df. row_subject r = Some k)"
  by (auto simp: List.map_filter_def image_iff)

lemma credits_of_group:
  "lecture_credits_from_rows (filter (\<lambda>r. row_subject r = Some subj) log_df)
     = derived_credits log_df subj"
proof -
  let ?g = "filter (\<lambda>r. row_subject r = Some subj) log_df"
  have eq: "filter (\<lambda>r. row_subject r = Some subj \<and> row_done r) log_df = filter row_done ?g"
    by (simp add: conj_commute)
  show ?thesis
  proof (cases "?g = []")
    case True
    then have "filter row_done ?g = []" by (simp only: filter.simps)
    with True show ?thesis
      by (simp only: lecture_credits_from_rows_def derived_credits_def eq) simp
  next
    case False
    then show ?thesis
      by (simp only: lecture_credits_from_rows_def derived_credits_def eq if_False)
  qed
qed

lemma compute_subject_progress_eq:
  "compute_subject_progress log_df subj
     = (if matched log_df subj then Some (derived_credits log_df subj) else None)"
  by (simp add: compute_subject_progress_def fold_progress set_map_filter_subject
      credits_of_group matched_def)

lemma sync_subject_completed:
  "subj_completed_lectures (sync_subject progress s)
     = (case progress (subj_name s) of None \<Rightarrow> subj_completed_lectures s
        | Some p \<Rightarrow> max p (subj_completed_lectures s))"
  by (simp add: sync_subject_def Let_def split: option.splits)

lemma sync_subject_unchanged:
  "(case progress (subj_name s) of None \<Rightarrow> True | Some p \<Rightarrow> p \<le> subj_completed_lectures s)
     \<Longrightarrow> sync_subject progress s = s"
  by (simp add: sync_subject_def Let_def max_def split: option.splits)

text \<open>
  Claim C5. Subject synchronization never decreases a count of completed lectures: the
  synchronized list has the subjects of the old one, in the same order and with the same
  names; every count is at least what it was; the count of a subject matched by the log
  becomes the maximum of its old value and the credits derived from the log; and a
  subject that the log does not match, or whose derived credits do not exceed its count,
  is left unchanged.
\<close>

theorem sync_never_decreases:
  "length (sync_subjects_with_log log_df subjects) = length subjects
   \<and> (\<forall>i < length subjects.
        subj_name (sync_subjects_with_log log_df subjects ! i) = subj_name (subjects ! i)
      \<and> subj_completed_lectures (subjects ! i)
          \<le> subj_completed_lectures (sync_subjects_with_log log_df subjects ! i)
      \<and> (matched log_df (subj_name (subjects ! i)) \<longrightarrow>
           subj_completed_lectures (sync_subjects_with_log log_df subjects ! i)
             = max (subj_completed_lectures (subjects ! i))
                   (derived_credits log_df (subj_name (subjects ! i))))
      \<and> (\<not> matched log_df (subj_name (subjects ! i))
           \<or> derived_credits log_df (subj_name (subjects ! i))
                \<le> subj_completed_lectures (subjects ! i) \<longrightarrow>
           sync_subjects_with_log log_df subjects ! i = subjects ! i))"
proof -
  let ?p = "compute_subject_progress log_df"
  have len: "length (sync_subjects_with_log log_df subjects) = length subjects"
    by (simp add: sync_subjects_with_log_def)
  have nth: "sync_subjects_with_log log_df subjects ! i = sync_subject ?p (subjects ! i)"
    if "i < length subjects" for i
    using that by (cases "subjects = []") (simp_all add: sync_subjects_with_log_def)
  show ?thesis
  proof (intro conjI allI impI)
    show "length (sync_subjects_with_log log_df subjects) = length subjects" by (rule len)
  next
    fix i assume i: "i < length subjects"
    show "subj_name (sync_subjects_with_log log_df subjects ! i) = subj_name (subjects ! i)"
      by (simp add: nth[OF i] sync_subject_name)
    show "subj_completed_lectures (subjects ! i)
          \<le> subj_completed_lectures (sync_subjects_with_log log_df subjects ! i)"
      by (simp add: nth[OF i] sync_subject_completed split: option.splits)
  next
    fix i assume i: "i < length subjects" and m: "matched log_df (subj_name (subjects ! i))"
    show "subj_completed_lectures (sync_subjects_with_log log_df subjects ! i)
             = max (subj_completed_lectures (subjects ! i))
                   (derived_credits log_df (subj_name (subjects ! i)))"
      using m by (simp add: nth[OF i] sync_subject_completed compute_subject_progress_eq max.commute)
  next
    fix i assume i: "i < length subjects"
      and h: "\<not> matched log_df (subj_name (subjects ! i))
           \<or> derived_credits log_df (subj_name (subjects ! i))
                \<le> subj_completed_lectures (subjects ! i)"
    have "sync_subject ?p (subjects ! i) = subjects ! i"
      by (rule sync_subject_unchanged) (use h in \<open>auto simp: compute_subject_progress_eq\<close>)
    then show "sync_subjects_with_log log_df subjects ! i = subjects ! i"
      by (simp add: nth[OF i])
  qed
qed

theorem sync_never_decreases_witness:
  "0 < length [law_subject] \<and> matched gap_log (subj_name law_subject)
   \<and> derived_credits gap_log (subj_name law_subject) = 4
   \<and> subj_completed_lectures law_subject = 1
   \<and> subj_completed_lectures (sync_subjects_with_log gap_log [law_subject] ! 0) = 4"
proof -
  have m: "matched gap_log (subj_name law_subject)"
    by (simp add: matched_def gap_log_def lecture_row_def law_subject_def u_def)
  have inc: "get_lecture_increment [0x1F4DA, 0x20, 0xC778, 0xAC15, 0x20, 0x31, 0xAC15] = 1"
    by (simp add: get_lecture_increment_def py_startswith_def lecture_3_def lecture_2_def lecture_1_def)
  have d: "derived_credits gap_log (subj_name law_subject) = 4"
    by (simp add: derived_credits_def gap_log_def lecture_row_def law_subject_def inc)
  have c: "subj_completed_lectures law_subject = 1"
    by (simp add: law_subject_def)
  from sync_never_decreases [of gap_log "[law_subject]"]
  have "matched gap_log (subj_name ([law_subject] ! 0)) \<longrightarrow>
        subj_completed_lectures (sync_subjects_with_log gap_log [law_subject] ! 0)
          = max (subj_completed_lectures ([law_subject] ! 0))
                (derived_credits gap_log (subj_name ([law_subject] ! 0)))"
    by simp
  with m d c show ?thesis by simp
qed

section \<open>Lecture credits\<close>

lemma py_in_iff: "py_in sub s \<longleftrightarrow> (\<exists>pre suf. s = pre @ sub @ suf)"
proof (induction s)
  case Nil
  then show ?case by auto
next
  case (Cons c cs)
  have "py_startswith (c # cs) sub \<longleftrightarrow> (\<exists>suf. c # cs = sub @ suf)"
    unfolding py_startswith_def
    by (metis append_eq_conv_conj)
  moreover have "(\<exists>pre suf. c # cs = pre @ sub @ suf) \<longleftrightarrow>
      (\<exists>suf. c # cs = sub @ suf) \<or> (\<exists>pre suf. cs = pre @ sub @ suf)"
    apply (rule iffI)
    subgoal by (metis append_Nil append_eq_Cons_conv)
    subgoal by (metis append_Cons append_Nil)
    done
  ultimately show ?case using Cons.IH by simp
qed

text \<open>
  Claim C3. The lecture credit of a block name follows substring rules, the first rule
  that applies deciding: a name containing the lecture-3 marker gives 1; otherwise a name
  containing the lecture-2 marker gives 2 if and only if it contains one of the three
  double-session labels (morning lecture 2, afternoon lecture 2, second-half lecture 2),
  else 1; otherwise a name containing the lecture-1, the lectures-1-to-2 or the
  lecture-continued marker gives 1; every other name gives 0.
\<close>

theorem get_lecture_increment_rules:
  "get_lecture_increment name =
     (if contains name lecture_3 then 1
      else if contains name lecture_2 then
        (if contains name morning_lecture_2 \<or> contains name afternoon_lecture_2
            \<or> contains name late_lecture_2 then 2 else 1)
      else if contains name lecture_1 \<or> contains name lecture_1_2
              \<or> contains name lecture_continue then 1
      else 0)"
  unfolding get_lecture_increment_def contains_def py_in_iff ..

text \<open>The credits of the block names of the schedule templates that mention a lecture.\<close>

lemma lecture_increment_on_templates:
  "get_lecture_increment [0xC778, 0xAC15, 0x20, 0xD2C0, 0xC5B4, 0xB193, 0xAE30, 0x2F, 0xCC45, 0x20, 0xD3B4, 0xB193, 0xAE30] = 0" \<comment> \<open>lecture playing / book open\<close>
  "get_lecture_increment [0xC804, 0xB0A0, 0x20, 0xC778, 0xAC15, 0x20, 0xB2E4, 0xC2DC, 0x20, 0xBCF4, 0xAE30] = 0" \<comment> \<open>rewatch the lecture of the day before\<close>
  "get_lecture_increment [0x1F4DA, 0x20, 0xC778, 0xAC15, 0x20, 0x31, 0xAC15] = 1" \<comment> \<open>lecture 1\<close>
  "get_lecture_increment [0x1F4DA, 0x20, 0xC778, 0xAC15, 0x20, 0xC774, 0xC5B4, 0xC11C, 0x20, 0x6F, 0x72, 0x20, 0xBCF5, 0xC2B5] = 1" \<comment> \<open>lecture continued or review\<close>
  "get_lecture_increment [0x1F4DA, 0x20, 0xC778, 0xAC15, 0x20, 0x32, 0xAC15] = 1" \<comment> \<open>lecture 2\<close>
  "get_lecture_increment [0x1F4DA, 0x20, 0xC778, 0xAC15, 0x20, 0x33, 0xAC15] = 1" \<comment> \<open>lecture 3\<close>
  "get_lecture_increment [0x1F4DA, 0x20, 0xC778, 0xAC15, 0x20, 0xD2C0, 0xAE30] = 0" \<comment> \<open>play a lecture\<close>
  "get_lecture_increment [0x1F4DA, 0x20, 0xC778, 0xAC15, 0x20, 0x6F, 0x72, 0x20, 0xC720, 0xC9C0] = 0" \<comment> \<open>lecture or hold\<close>
  "get_lecture_increment [0x1F4DA, 0x20, 0xC778, 0xAC15, 0x20, 0x31, 0x7E, 0x32, 0xAC15] = 1" \<comment> \<open>lecture 1~2\<close>
  "get_lecture_increment [0x1F4DA, 0x20, 0xC778, 0xAC15, 0x20, 0xC774, 0xC5B4, 0xC11C] = 1" \<comment> \<open>lecture continued\<close>
  "get_lecture_increment [0x1F4DA, 0x20, 0xC624, 0xC804, 0x20, 0xC778, 0xAC15, 0x20, 0x32, 0xAC15] = 2" \<comment> \<open>morning lecture 2\<close>
  "get_lecture_increment [0x1F4DA, 0x20, 0xC624, 0xD6C4, 0x20, 0xC804, 0xBC18, 0x20, 0xC778, 0xAC15, 0x20, 0x32, 0xAC15] = 1" \<comment> \<open>afternoon first-half lecture 2\<close>
  "get_lecture_increment [0x1F4DA, 0x20, 0xC624, 0xD6C4, 0x20, 0xD6C4, 0xBC18, 0x20, 0xC778, 0xAC15] = 0" \<comment> \<open>late-afternoon lecture\<close>
  "get_lecture_increment [0x1F4DA, 0x20, 0xC624, 0xD6C4, 0x20, 0xC778, 0xAC15, 0x20, 0x32, 0xAC15] = 2" \<comment> \<open>afternoon lecture 2\<close>
  "get_lecture_increment [0x1F4DA, 0x20, 0xC624, 0xD6C4, 0x20, 0xD6C4, 0xBC18, 0x20, 0xC778, 0xAC15, 0x20, 0x32, 0xAC15] = 2" \<comment> \<open>late-afternoon lecture 2\<close>
  by (simp_all add: get_lecture_increment_def py_startswith_def lecture_3_def lecture_2_def
      morning_lecture_2_def afternoon_lecture_2_def late_lecture_2_def lecture_1_def
      lecture_1_2_def lecture_continue_def)

section \<open>Attendance streak\<close>

text \<open>
  Claim C1 says that a calendar day without rows between two logged days ends the streak.
  The loop only visits the dates that have rows, so it never sees such a day: in the log
  \<open>gap_log\<close>, with a completed block on 2026-11-04, on the two days before and on
  2026-10-31 and no row at all on 2026-11-01, the streak counted on 2026-11-04 is 4, where
  the claim gives 3.
\<close>

theorem streak_counts_across_gap:
  "streak gap_log 739924 = 4 \<and> filter (\<lambda>r. row_date r = 739921) gap_log = []"
  by (simp add: streak_def unique_dates_def gap_log_def lecture_row_def u_def)

section \<open>Weekly grade\<close>

lemma py_round1_minutes:
  "py_round1 up (of_int tm / 60)
     = of_int (if tm mod 6 < 3 then tm div 6
               else if 3 < tm mod 6 then tm div 6 + 1
               else if up then tm div 6 + 1 else tm div 6) / 10"
proof -
  have fl: "\<lfloor>real_of_int tm / real_of_int 6\<rfloor> = tm div 6"
    by (rule floor_divide_of_int_eq)
  have "real_of_int tm = real_of_int (6 * (tm div 6) + tm mod 6)"
    by simp
  then have e: "real_of_int tm = 6 * real_of_int (tm div 6) + real_of_int (tm mod 6)"
    by (simp only: of_int_add of_int_mult of_int_numeral)
  have r: "real_of_int tm / 6 - real_of_int (tm div 6) = real_of_int (tm mod 6) / 6"
    using e by linarith
  have lt: "real_of_int (tm mod 6) / 6 < 1 / 2 \<longleftrightarrow> tm mod 6 < 3"
    by auto
  have gt: "1 / 2 < real_of_int (tm mod 6) / 6 \<longleftrightarrow> 3 < tm mod 6"
    by auto
  have x: "real_of_int tm / 60 * 10 = real_of_int tm / real_of_int 6"
    by simp
  show ?thesis
    unfolding py_round1_def Let_def x fl
    using r lt gt by simp
qed

lemma round_tenths_less:
  "(if tm mod 6 < 3 then tm div 6
    else if 3 < tm mod 6 then tm div 6 + 1
    else if up then tm div 6 + 1 else tm div 6) < 10 * c
   \<longleftrightarrow> tm < 60 * c - 3 \<or> (tm = 60 * c - 3 \<and> \<not> up)" for tm c :: int
proof -
  consider "tm mod 6 < 3" | "3 < tm mod 6" | "tm mod 6 = 3" by linarith
  then show ?thesis
  proof cases
    case 1
    then have "(tm div 6 < 10 * c) = (tm < 60 * c - 3)" "tm \<noteq> 60 * c - 3"
      by presburger+
    with 1 show ?thesis by simp
  next
    case 2
    then have "(tm div 6 + 1 < 10 * c) = (tm < 60 * c - 3)" "tm \<noteq> 60 * c - 3"
      by presburger+
    with 2 show ?thesis by simp
  next
    case 3
    then have "(tm div 6 + 1 < 10 * c) = (tm < 60 * c - 3)"
      "(tm div 6 < 10 * c) = (tm \<le> 60 * c - 3)"
      by presburger+
    with 3 show ?thesis by (cases up) auto
  qed
qed

lemma py_round1_less:
  "py_round1 up (of_int tm / 60) < of_int c \<longleftrightarrow> tm < 60 * c - 3 \<or> (tm = 60 * c - 3 \<and> \<not> up)"
proof -
  let ?k = "if tm mod 6 < 3 then tm div 6
               else if 3 < tm mod 6 then tm div 6 + 1
               else if up then tm div 6 + 1 else tm div 6"
  have "py_round1 up (of_int tm / 60) < of_int c \<longleftrightarrow> real_of_int ?k < real_of_int (10 * c)"
    unfolding py_round1_minutes by (simp add: field_simps)
  also have "\<dots> \<longleftrightarrow> ?k < 10 * c"
    by (rule of_int_less_iff)
  also have "\<dots> \<longleftrightarrow> tm < 60 * c - 3 \<or> (tm = 60 * c - 3 \<and> \<not> up)"
    by (rule round_tenths_less)
  finally show ?thesis .
qed


lemma weekly_grade_minutes:
  "weekly_grade (py_round1 up (of_int tm / 60)) =
     (if tm < 1077 \<or> (tm = 1077 \<and> \<not> up) then ''D-''
      else if tm < 1317 \<or> (tm = 1317 \<and> \<not> up) then ''A''
      else if tm < 1617 \<or> (tm = 1617 \<and> \<not> up) then ''B''
      else if tm < 1917 \<or> (tm = 1917 \<and> \<not> up) then ''C''
      else ''S'')"
proof -
  let ?th = "py_round1 up (of_int tm / 60)"
  have a: "?th < 18 \<longleftrightarrow> tm < 1077 \<or> (tm = 1077 \<and> \<not> up)"
    using py_round1_less [of up tm 18] by simp
  have b: "?th < 22 \<longleftrightarrow> tm < 1317 \<or> (tm = 1317 \<and> \<not> up)"
    using py_round1_less [of up tm 22] by simp
  have c: "?th < 27 \<longleftrightarrow> tm < 1617 \<or> (tm = 1617 \<and> \<not> up)"
    using py_round1_less [of up tm 27] by simp
  have d: "?th < 32 \<longleftrightarrow> tm < 1917 \<or> (tm = 1917 \<and> \<not> up)"
    using py_round1_less [of up tm 32] by simp
  show ?thesis
    by (simp only: weekly_grade_def a b c d)
qed





text \<open>The examples of the specification: 1080, 1320 and 1920 minutes.\<close>

lemma weekly_grade_examples:
  "weekly_grade (py_round1 up (of_int 1080 / 60)) = ''A''"
  "weekly_grade (py_round1 up (of_int 1320 / 60)) = ''B''"
  "weekly_grade (py_round1 up (of_int 1920 / 60)) = ''S''"
  using weekly_grade_minutes [of up 1080] weekly_grade_minutes [of up 1320]
    weekly_grade_minutes [of up 1920]
  by simp_all

section \<open>Daily grade\<close>

lemma binary64_grid:
  assumes "is_binary64 x" and "2 ^ 52 \<le> \<bar>x\<bar> * 2 ^ g"
  shows "\<exists>k::int. x = of_int k / 2 ^ g"
proof -
  from assms(1) obtain m e :: int where m: "\<bar>m\<bar> < 2 ^ 53" and x: "x = of_int m * 2 powi e"
    unfolding is_binary64_def by blast
  have split: "(2::real) powi (e + int g) = 2 powi e * 2 ^ g"
    by (simp add: power_int_add)
  have "0 \<le> e + int g"
  proof (rule ccontr)
    assume "\<not> 0 \<le> e + int g"
    then have "e + int g \<le> - 1" by simp
    then have "(2::real) powi (e + int g) \<le> 2 powi (- 1)"
      by (intro power_int_increasing) simp_all
    then have half: "(2::real) powi (e + int g) \<le> 1 / 2" by simp
    have "\<bar>x\<bar> * 2 ^ g = \<bar>of_int m\<bar> * 2 powi (e + int g)"
      by (simp add: x abs_mult split)
    also have "\<dots> \<le> \<bar>of_int m\<bar> * (1 / 2)"
      using half by (intro mult_left_mono) simp_all
    also have "\<dots> < 2 ^ 53 * (1 / 2)"
    proof -
      from m have "\<bar>real_of_int m\<bar> < 2 ^ 53"
        by (metis of_int_abs of_int_less_numeral_power_cancel_iff)
      then show ?thesis by simp
    qed
    finally show False using assms(2) by simp
  qed
  then have "(2::real) powi (e + int g) = of_int (2 ^ nat (e + int g))"
    by (simp add: power_int_nonneg_exp)
  then have "x * 2 ^ g = of_int (m * 2 ^ nat (e + int g))"
    using split by (simp add: x)
  then have "x = of_int (m * 2 ^ nat (e + int g)) / 2 ^ g"
    by (simp add: field_simps)
  then show ?thesis ..
qed

lemma binary64_between:
  assumes "is_binary64 y" and "2 ^ 52 \<le> a"
    and "of_int a / 2 ^ g < y" and "y < of_int (a + 2) / 2 ^ g"
  shows "y = of_int (a + 1) / 2 ^ g"
proof -
  have p: "(0::real) < 2 ^ g" by simp
  from assms(3) p have lo: "real_of_int a < y * 2 ^ g"
    by (simp add: field_simps)
  from assms(2) have "(2::real) ^ 52 \<le> of_int a"
    by (metis of_int_le_iff of_int_numeral of_int_power)
  moreover have "(0::real) < 2 ^ 52" by simp
  ultimately have "0 < y * 2 ^ g" "2 ^ 52 \<le> y * 2 ^ g"
    using lo by linarith+
  with p have "0 < y" by (simp add: zero_less_mult_iff)
  with \<open>2 ^ 52 \<le> y * 2 ^ g\<close> have "2 ^ 52 \<le> \<bar>y\<bar> * 2 ^ g" by simp
  with assms(1) obtain k :: int where k: "y = of_int k / 2 ^ g"
    using binary64_grid by blast
  from assms(3) k p have "real_of_int a < real_of_int k"
    by (simp add: divide_less_cancel)
  moreover from assms(4) k p have "real_of_int k < real_of_int (a + 2)"
    by (simp add: divide_less_cancel)
  ultimately have "a < k" "k < a + 2" by (simp_all only: of_int_less_iff)
  then have "k = a + 1" by simp
  with k show ?thesis by simp
qed

lemma is_binary64_I:
  "\<bar>m\<bar> < 2 ^ 53 \<Longrightarrow> g \<le> 1074 \<Longrightarrow> is_binary64 (of_int m / 2 ^ g)"
  unfolding is_binary64_def
  by (rule exI [of _ m], rule exI [of _ "- int g"])
     (simp add: power_int_minus field_simps)

lemma binary64_literals:
  "is_binary64 lit_2_4" "is_binary64 lit_2_5" "is_binary64 lit_3_1" "is_binary64 lit_3_9"
  "is_binary64 lit_4_6" "is_binary64 5" "is_binary64 0"
  unfolding lit_2_4_def lit_2_5_def lit_3_1_def lit_3_9_def lit_4_6_def
  using is_binary64_I [of 5404319552844595 51] is_binary64_I [of 5 1]
    is_binary64_I [of 6980579422424269 51] is_binary64_I [of 8782019273372467 51]
    is_binary64_I [of 5179139571476070 50] is_binary64_I [of 5 0] is_binary64_I [of 0 0]
  by simp_all


lemma nearest_binary64_I:
  assumes "2 ^ 52 \<le> a" and "a + 1 < 2 ^ 53" and "g \<le> 1074"
    and "\<bar>of_int (a + 1) / 2 ^ g - d\<bar> < d - of_int a / 2 ^ g"
    and "\<bar>of_int (a + 1) / 2 ^ g - d\<bar> < of_int (a + 2) / 2 ^ g - d"
  shows "nearest_binary64 d (of_int (a + 1) / 2 ^ g)"
  unfolding nearest_binary64_def
proof (intro conjI allI impI)
  from assms(1) have "0 \<le> a" by (rule order_trans [rotated]) simp
  with assms(2) have "\<bar>a + 1\<bar> < 2 ^ 53" by simp
  then show "is_binary64 (of_int (a + 1) / 2 ^ g)"
    using assms(3) by (rule is_binary64_I)
next
  fix y assume y: "is_binary64 y \<and> y \<noteq> of_int (a + 1) / 2 ^ g"
  show "\<bar>of_int (a + 1) / 2 ^ g - d\<bar> < \<bar>y - d\<bar>"
  proof (rule ccontr)
    assume "\<not> \<bar>of_int (a + 1) / 2 ^ g - d\<bar> < \<bar>y - d\<bar>"
    then have "of_int a / 2 ^ g < y" "y < of_int (a + 2) / 2 ^ g"
      using assms(4,5) by linarith+
    with y assms(1) have "y = of_int (a + 1) / 2 ^ g"
      by (intro binary64_between) simp_all
    with y show False by simp
  qed
qed

text \<open>The literal constants are the binary64 numbers nearest to the decimals they are written as.\<close>

lemma float_literals:
  "nearest_binary64 (24 / 10) lit_2_4" "nearest_binary64 (25 / 10) lit_2_5"
  "nearest_binary64 (31 / 10) lit_3_1" "nearest_binary64 (39 / 10) lit_3_9"
  "nearest_binary64 (46 / 10) lit_4_6"
  using nearest_binary64_I [of 5404319552844594 51 "24 / 10"]
    nearest_binary64_I [of 5629499534213119 51 "25 / 10"]
    nearest_binary64_I [of 6980579422424268 51 "31 / 10"]
    nearest_binary64_I [of 8782019273372466 51 "39 / 10"]
    nearest_binary64_I [of 5179139571476069 50 "46 / 10"]
  by (simp_all add: lit_2_4_def lit_2_5_def lit_3_1_def lit_3_9_def lit_4_6_def)

lemma less_lit_3_1:
  assumes "is_binary64 h"
  shows "h < lit_3_1 \<longleftrightarrow> h < 31 / 10"
proof
  assume "h < 31 / 10"
  then show "h < lit_3_1" by (simp add: lit_3_1_def)
next
  assume lt: "h < lit_3_1"
  show "h < 31 / 10"
  proof (rule ccontr)
    assume "\<not> h < 31 / 10"
    then have "real_of_int 6980579422424268 / 2 ^ 51 < h" by simp
    moreover from lt have "h < real_of_int (6980579422424268 + 2) / 2 ^ 51"
      by (simp add: lit_3_1_def)
    ultimately have "h = real_of_int (6980579422424268 + 1) / 2 ^ 51"
      using assms by (intro binary64_between) simp_all
    with lt show False by (simp add: lit_3_1_def)
  qed
qed

lemma less_lit_3_9:
  assumes "is_binary64 h"
  shows "h < lit_3_9 \<longleftrightarrow> h < 39 / 10 \<and> h \<noteq> lit_3_9"
proof
  assume "h < lit_3_9"
  then show "h < 39 / 10 \<and> h \<noteq> lit_3_9" by (simp add: lit_3_9_def)
next
  assume h: "h < 39 / 10 \<and> h \<noteq> lit_3_9"
  show "h < lit_3_9"
  proof (rule ccontr)
    assume "\<not> h < lit_3_9"
    with h have "lit_3_9 < h" by simp
    then have "real_of_int 8782019273372466 / 2 ^ 51 < h" by (simp add: lit_3_9_def)
    moreover from h have "h < real_of_int (8782019273372466 + 2) / 2 ^ 51" by simp
    ultimately have "h = real_of_int (8782019273372466 + 1) / 2 ^ 51"
      using assms by (intro binary64_between) simp_all
    with h show False by (simp add: lit_3_9_def)
  qed
qed

lemma less_lit_4_6:
  assumes "is_binary64 h"
  shows "h < lit_4_6 \<longleftrightarrow> h < 46 / 10 \<and> h \<noteq> lit_4_6"
proof
  assume "h < lit_4_6"
  then show "h < 46 / 10 \<and> h \<noteq> lit_4_6" by (simp add: lit_4_6_def)
next
  assume h: "h < 46 / 10 \<and> h \<noteq> lit_4_6"
  show "h < lit_4_6"
  proof (rule ccontr)
    assume "\<not> h < lit_4_6"
    with h have "lit_4_6 < h" by simp
    then have "real_of_int 5179139571476069 / 2 ^ 50 < h" by (simp add: lit_4_6_def)
    moreover from h have "h < real_of_int (5179139571476069 + 2) / 2 ^ 50" by simp
    ultimately have "h = real_of_int (5179139571476069 + 1) / 2 ^ 50"
      using assms by (intro binary64_between) simp_all
    with h show False by (simp add: lit_4_6_def)
  qed
qed

text \<open>
  Claim C7. For every float \<open>hours\<close> the daily grade is "D-" below 2.5, "A" from 2.5 and
  below 3.1, "B" from 3.1 and below 3.9, "C" from 3.9 and below 4.6, and "S" from 4.6, in
  this order of labels, the numbers being the floats that the literals denote: among the
  floats, those below the literal 3.1 are exactly those below the decimal 3.1, and the
  floats written 3.9 and 4.6, which lie a fraction of a unit in the last place under the
  decimals, are the first to reach "C" and "S". The boundary cases: 2.4 gives "D-", 2.5
  gives "A", 3.9 gives "C" and 5.0 gives "S".
\<close>

theorem get_daily_grade_table:
  assumes "is_binary64 hours"
  shows "get_daily_grade hours =
           (if hours < 25 / 10 then ''D-''
            else if hours < 31 / 10 then ''A''
            else if hours < 39 / 10 \<and> hours \<noteq> lit_3_9 then ''B''
            else if hours < 46 / 10 \<and> hours \<noteq> lit_4_6 then ''C''
            else ''S'')
       \<and> get_daily_grade lit_2_4 = ''D-'' \<and> get_daily_grade lit_2_5 = ''A''
       \<and> get_daily_grade lit_3_9 = ''C'' \<and> get_daily_grade 5 = ''S''"
proof -
  have a: "hours < lit_2_5 \<longleftrightarrow> hours < 25 / 10" by (simp add: lit_2_5_def)
  have ex: "get_daily_grade lit_2_4 = ''D-''" "get_daily_grade lit_2_5 = ''A''"
    "get_daily_grade lit_3_9 = ''C''" "get_daily_grade 5 = ''S''"
    by (simp_all add: get_daily_grade_def lit_2_4_def lit_2_5_def lit_3_1_def lit_3_9_def
        lit_4_6_def)
  have "get_daily_grade hours =
           (if hours < 25 / 10 then ''D-''
            else if hours < 31 / 10 then ''A''
            else if hours < 39 / 10 \<and> hours \<noteq> lit_3_9 then ''B''
            else if hours < 46 / 10 \<and> hours \<noteq> lit_4_6 then ''C''
            else ''S'')"
    by (simp only: get_daily_grade_def a less_lit_3_1 [OF assms] less_lit_3_9 [OF assms]
        less_lit_4_6 [OF assms])
  with ex show ?thesis by simp
qed

theorem get_daily_grade_table_witness:
  "is_binary64 lit_3_9 \<and> \<not> lit_3_9 < 31 / 10 \<and> lit_3_9 < 39 / 10
   \<and> get_daily_grade lit_3_9 = ''C''"
proof -
  have b: "is_binary64 lit_3_9" by (rule binary64_literals)
  have c: "\<not> lit_3_9 < 31 / 10" "lit_3_9 < 39 / 10" by (simp_all add: lit_3_9_def)
  from get_daily_grade_table [OF b] have "get_daily_grade lit_3_9 = ''C''" by blast
  with b c show ?thesis by blast
qed

end
